theory Spec2Isabelle
  imports Main "HOL-Library.Word"
begin

section \<open>Side-input values of the Go SDK harness (exec/input.go)\<close>

text \<open>
  The file \<^verbatim>\<open>sdks/go/pkg/beam/core/runtime/exec/input.go\<close> builds the values that a
  user function receives for a side input. This theory models the sequential iterator
  (\<^verbatim>\<open>iterValue\<close>), the re-iterable factory (\<^verbatim>\<open>reIterValue\<close>), the keyed multimap
  accessor (\<^verbatim>\<open>multiMapValue\<close>) and the registry of specialised makers (\<^verbatim>\<open>inputs\<close>,
  \<^verbatim>\<open>RegisterInput\<close>, \<^verbatim>\<open>makeIter\<close>).

  Go's pointer receivers become explicit state passing: a method takes the struct and
  returns it updated. A panic is a value of type \<open>'a panic\<close> on the left of a sum. The
  registry mutex only serialises accesses and has no counterpart in this sequential model.
\<close>

subsection \<open>Errors, panics, types and values\<close>

text \<open>
  Go's \<^verbatim>\<open>error\<close>: the sentinel \<^verbatim>\<open>io.EOF\<close>, any other error, and
  \<^verbatim>\<open>errors.Wrap(err, msg)\<close>. The test \<^verbatim>\<open>err == io.EOF\<close> is an identity test, so a
  wrapped end-of-file is not \<open>EOF\<close>.
\<close>

datatype error = EOF | Err string | Wrap error string

text \<open>
  \<^verbatim>\<open>reflect.Type\<close>, as far as input.go looks at it: the distinguished
  \<^verbatim>\<open>typex.EventTimeType\<close>, named types, pointers and function types (parameter types,
  result types).
\<close>

datatype rtype = EventTimeType | Named string | Ptr rtype | Func "rtype list" "rtype list"

text \<open>\<^verbatim>\<open>typex.EventTime\<close> is \<^verbatim>\<open>mtime.Time\<close>, an \<^verbatim>\<open>int64\<close>.\<close>

type_synonym EventTime = "64 word"

text \<open>Which method a function made by \<^verbatim>\<open>reflect.MakeFunc\<close> is bound to.\<close>

datatype invoker = IterInvoke | ReIterInvoke | MultiMapInvoke

text \<open>
  Two kinds of values occur in the file and are kept apart.

  \<open>'a Value\<close> is an \<^verbatim>\<open>interface{}\<close>: the nil interface; an event time; user data with
  its dynamic type; a function value \<^verbatim>\<open>reflect.MakeFunc(t, recv.invoke).Interface()\<close>,
  which belongs to the struct that stores it in its \<^verbatim>\<open>fn\<close> field; and an
  \<^verbatim>\<open>interface{}\<close> that holds a \<^verbatim>\<open>reflect.Value\<close> struct, which is what Go makes of a
  \<^verbatim>\<open>reflect.Value\<close> passed where an \<^verbatim>\<open>interface{}\<close> is expected.

  \<open>'a reflectValue\<close> is a \<^verbatim>\<open>reflect.Value\<close>: \<^verbatim>\<open>reflect.ValueOf(x)\<close> (the zero Value when
  \<open>x\<close> is the nil interface), a nil pointer, or the address of a variable of a declared
  type with its present content.
\<close>

datatype 'a Value =
    NilValue
  | TimeValue EventTime
  | Data rtype 'a
  | MakeFunc rtype invoker
  | Reflected "'a reflectValue"
and 'a reflectValue =
    ValueOf "'a Value"
  | NilPtr
  | PtrTo rtype "'a Value"

text \<open>
  \<^verbatim>\<open>reflect.TypeOf\<close>: the dynamic type of an \<^verbatim>\<open>interface{}\<close>, none for the nil
  interface.
\<close>

fun TypeOf :: "'a Value \<Rightarrow> rtype option" where
  "TypeOf NilValue = None"
| "TypeOf (TimeValue ts) = Some EventTimeType"
| "TypeOf (Data t x) = Some t"
| "TypeOf (MakeFunc t m) = Some t"
| "TypeOf (Reflected rv) = Some (Named ''reflect.Value'')"

text \<open>
  A panic: \<^verbatim>\<open>panic("...")\<close>, \<^verbatim>\<open>panic(err)\<close>, the two \<^verbatim>\<open>panic(fmt.Sprintf("...%v", x))\<close>
  forms of the file (the format's fixed text and its argument), and a panic of the Go
  runtime or of package reflect (nil interface, index out of range, \<^verbatim>\<open>Out\<close> of a
  non-function type, \<^verbatim>\<open>Elem\<close>, \<^verbatim>\<open>Set\<close>, \<^verbatim>\<open>MakeFunc\<close>).
\<close>

datatype 'a panic =
    PanicString string
  | PanicError error
  | PanicTypef string rtype
  | PanicArgsf string "'a reflectValue list"
  | RuntimeError string

text \<open>\<^verbatim>\<open>FullValue\<close>: the fields of an element that input.go reads.\<close>

record 'a FullValue =
  Elm :: "'a Value"
  Elm2 :: "'a Value"
  Timestamp :: EventTime

subsection \<open>The stream interfaces\<close>

text \<open>
  Modelled from the spec: the interfaces \<^verbatim>\<open>Stream\<close> and \<^verbatim>\<open>ReStream\<close> are declared outside
  input.go (spec section 6: \<^verbatim>\<open>Cursor: read() -> ElementRecord | EndOfStream | ReadError;
  close() -> () | CloseError\<close> and \<^verbatim>\<open>Element Stream: open() -> Cursor | StreamOpenError\<close>).
  A \<^verbatim>\<open>Stream\<close> value is an object: a private state of any type \<open>'s\<close> with its two
  methods, each returning its result and the next private state. A \<^verbatim>\<open>ReStream\<close> is
  restartable: \<^verbatim>\<open>Open\<close> answers an error or a fresh cursor, the same at every call.
\<close>

datatype ('a, 's) Stream =
  Stream (cursor_state: 's)
         (Read_method: "'s \<Rightarrow> (error + 'a FullValue) \<times> 's")
         (Close_method: "'s \<Rightarrow> error option \<times> 's")

definition Stream_Read :: "('a, 's) Stream \<Rightarrow> (error + 'a FullValue) \<times> ('a, 's) Stream" where
  "Stream_Read c =
     (case Read_method c (cursor_state c) of
        (r, st) \<Rightarrow> (r, Stream st (Read_method c) (Close_method c)))"

definition Stream_Close :: "('a, 's) Stream \<Rightarrow> error option \<times> ('a, 's) Stream" where
  "Stream_Close c =
     (case Close_method c (cursor_state c) of
        (r, st) \<Rightarrow> (r, Stream st (Read_method c) (Close_method c)))"

text \<open>
  Modelled from the spec: the interface \<^verbatim>\<open>ReStream\<close> (declared outside input.go), an
  object with the one method \<^verbatim>\<open>Open\<close>.
\<close>

datatype ('a, 's) ReStream = ReStream (Open: "error + ('a, 's) Stream")

subsection \<open>iterValue: the sequential iterator\<close>

text \<open>
  \<^verbatim>\<open>type iterValue struct { s ReStream; fn interface{}; types []reflect.Type; cur Stream }\<close>.
  The fields carry the prefix \<open>iter_\<close>. An interface field that is nil is \<open>None\<close>.
\<close>

record ('a, 's) iterValue =
  iter_s :: "('a, 's) ReStream option"
  iter_fn :: "'a Value"
  iter_types :: "rtype list"
  iter_cur :: "('a, 's) Stream option"

text \<open>
  \<^verbatim>\<open>Init\<close>: \<^verbatim>\<open>cur, err := v.s.Open(); if err != nil { return err }; v.cur = cur; return nil\<close>.
  Calling \<^verbatim>\<open>Open\<close> on a nil interface is a run-time panic.
\<close>

definition iterValue_Init ::
  "('a, 's) iterValue \<Rightarrow> ('a panic + error option) \<times> ('a, 's) iterValue" where
  "iterValue_Init v =
     (case iter_s v of
        None \<Rightarrow> (Inl (RuntimeError ''invalid memory address or nil pointer dereference''), v)
      | Some rs \<Rightarrow>
          (case Open rs of
             Inl err \<Rightarrow> (Inr (Some err), v)
           | Inr cur \<Rightarrow> (Inr None, v\<lparr>iter_cur := Some cur\<rparr>)))"

text \<open>\<^verbatim>\<open>Value\<close>: \<^verbatim>\<open>return v.fn\<close>.\<close>

definition iterValue_Value :: "('a, 's) iterValue \<Rightarrow> 'a panic + 'a Value" where
  "iterValue_Value v = Inr (iter_fn v)"

text \<open>
  \<^verbatim>\<open>Reset\<close>: panics without a cursor; returns the error of \<^verbatim>\<open>Close\<close> if there is one;
  otherwise clears \<^verbatim>\<open>v.cur\<close>.
\<close>

definition iterValue_Reset ::
  "('a, 's) iterValue \<Rightarrow> ('a panic + error option) \<times> ('a, 's) iterValue" where
  "iterValue_Reset v =
     (case iter_cur v of
        None \<Rightarrow> (Inl (PanicString ''Init() not called''), v)
      | Some c \<Rightarrow>
          (case Stream_Close c of
             (Some err, c') \<Rightarrow> (Inr (Some err), v\<lparr>iter_cur := Some c'\<rparr>)
           | (None, c') \<Rightarrow> (Inr None, v\<lparr>iter_cur := None\<rparr>)))"

text \<open>
  \<^verbatim>\<open>a.Elem().Set(reflect.ValueOf(x))\<close> of package reflect, for an argument \<open>a\<close> of the
  callable. \<^verbatim>\<open>Elem\<close> panics on a Value that is no pointer; \<^verbatim>\<open>Set\<close> panics on the
  element of a nil pointer, on the zero Value (\<open>x\<close> the nil interface), and when the type
  of \<open>x\<close> is not assignable to the type of the variable. \<open>AssignableTo\<close> is
  \<^verbatim>\<open>reflect.Type.AssignableTo\<close>, value type first; Go's assignability depends on parts of
  the types that \<open>rtype\<close> does not record (interfaces, underlying types), so it is a
  parameter.
\<close>

definition Elem_Set ::
  "(rtype \<Rightarrow> rtype \<Rightarrow> bool) \<Rightarrow> 'a reflectValue \<Rightarrow> 'a Value \<Rightarrow> 'a panic + 'a reflectValue" where
  "Elem_Set AssignableTo a x =
     (case a of
        ValueOf y \<Rightarrow> Inl (RuntimeError ''reflect: call of reflect.Value.Elem on non-pointer Value'')
      | NilPtr \<Rightarrow> Inl (RuntimeError ''reflect: call of reflect.Value.Set on zero Value'')
      | PtrTo T old \<Rightarrow>
          (case TypeOf x of
             None \<Rightarrow> Inl (RuntimeError ''reflect: call of reflect.Value.Set on zero Value'')
           | Some vt \<Rightarrow>
               if AssignableTo vt T then Inr (PtrTo T x)
               else Inl (RuntimeError ''reflect.Set: value is not assignable to type'')))"

text \<open>
  The loop of \<^verbatim>\<open>invoke\<close> over \<^verbatim>\<open>v.types\<close>, with the index \<open>i\<close> and the flag
  \<^verbatim>\<open>isKey\<close>. \<open>args\<close> are the arguments of the callable, the out parameters that the
  caller passes by pointer; \<^verbatim>\<open>args[i]\<close> out of range is a run-time panic, and a panic
  leaves the slots written so far written. \<open>Convert\<close> is the conversion routine of the
  package, declared outside input.go and taken as a parameter.
\<close>

fun fill ::
  "('a Value \<Rightarrow> rtype \<Rightarrow> 'a Value) \<Rightarrow> (rtype \<Rightarrow> rtype \<Rightarrow> bool) \<Rightarrow> 'a FullValue \<Rightarrow>
     rtype list \<Rightarrow> nat \<Rightarrow> bool \<Rightarrow> 'a reflectValue list \<Rightarrow>
     'a panic option \<times> 'a reflectValue list" where
  "fill Convert AssignableTo elm [] i isKey args = (None, args)"
| "fill Convert AssignableTo elm (t # ts) i isKey args =
     (case (if t = EventTimeType then (TimeValue (Timestamp elm), isKey)
            else if isKey then (Convert (Elm elm) t, False)
            else (Convert (Elm2 elm) t, isKey)) of
        (x, isKey') \<Rightarrow>
          if i < length args then
            (case Elem_Set AssignableTo (args ! i) x of
               Inl p \<Rightarrow> (Some p, args)
             | Inr a \<Rightarrow> fill Convert AssignableTo elm ts (Suc i) isKey' (args[i := a]))
          else (Some (RuntimeError ''index out of range''), args))"

text \<open>
  \<^verbatim>\<open>invoke\<close>, the body of the callable: the result (a panic, or the boolean it returns),
  the out parameters and the struct after the call.
\<close>

definition iterValue_invoke ::
  "('a Value \<Rightarrow> rtype \<Rightarrow> 'a Value) \<Rightarrow> (rtype \<Rightarrow> rtype \<Rightarrow> bool) \<Rightarrow> ('a, 's) iterValue \<Rightarrow>
     'a reflectValue list \<Rightarrow> ('a panic + bool) \<times> 'a reflectValue list \<times> ('a, 's) iterValue" where
  "iterValue_invoke Convert AssignableTo v args =
     (case iter_cur v of
        None \<Rightarrow> (Inl (PanicString ''Init() not called''), args, v)
      | Some c \<Rightarrow>
          (case Stream_Read c of
             (Inl err, c') \<Rightarrow>
               if err = EOF then (Inr False, args, v\<lparr>iter_cur := Some c'\<rparr>)
               else (Inl (PanicError (Wrap err ''broken stream'')), args, v\<lparr>iter_cur := Some c'\<rparr>)
           | (Inr elm, c') \<Rightarrow>
               (case fill Convert AssignableTo elm (iter_types v) 0 True args of
                  (None, args') \<Rightarrow> (Inr True, args', v\<lparr>iter_cur := Some c'\<rparr>)
                | (Some p, args') \<Rightarrow> (Inl p, args', v\<lparr>iter_cur := Some c'\<rparr>))))"

subsection \<open>The registry and makeIter\<close>

text \<open>
  \<^verbatim>\<open>ReusableInput\<close> is an interface. \<^verbatim>\<open>makeIter\<close> returns either the reflection-based
  \<^verbatim>\<open>iterValue\<close> or whatever a registered maker built: an object of some other
  implementation, with a private state of type \<open>'x\<close> and its three methods.
\<close>

datatype ('a, 's, 'x) ReusableInput =
    IterValue "('a, 's) iterValue"
  | Registered 'x
      "'x \<Rightarrow> ('a panic + error option) \<times> 'x"
      "'x \<Rightarrow> 'a panic + 'a Value"
      "'x \<Rightarrow> ('a panic + error option) \<times> 'x"

fun ReusableInput_Init ::
  "('a, 's, 'x) ReusableInput \<Rightarrow> ('a panic + error option) \<times> ('a, 's, 'x) ReusableInput" where
  "ReusableInput_Init (IterValue v) = (case iterValue_Init v of (r, v') \<Rightarrow> (r, IterValue v'))"
| "ReusableInput_Init (Registered x ini val rst) =
     (case ini x of (r, x') \<Rightarrow> (r, Registered x' ini val rst))"

fun ReusableInput_Value :: "('a, 's, 'x) ReusableInput \<Rightarrow> 'a panic + 'a Value" where
  "ReusableInput_Value (IterValue v) = iterValue_Value v"
| "ReusableInput_Value (Registered x ini val rst) = val x"

text \<open>
  \<^verbatim>\<open>inputs = make(map[reflect.Type]func(ReStream) ReusableInput)\<close>, passed explicitly.
\<close>

type_synonym ('a, 's, 'x) registry =
  "rtype \<rightharpoonup> (('a, 's) ReStream option \<Rightarrow> ('a, 's, 'x) ReusableInput)"

definition RegisterInput ::
  "rtype \<Rightarrow> (('a, 's) ReStream option \<Rightarrow> ('a, 's, 'x) ReusableInput) \<Rightarrow>
     ('a, 's, 'x) registry \<Rightarrow> ('a, 's, 'x) registry" where
  "RegisterInput t maker inputs = inputs(t \<mapsto> maker)"

definition IsInputRegistered :: "('a, 's, 'x) registry \<Rightarrow> rtype \<Rightarrow> bool" where
  "IsInputRegistered inputs t = (case inputs t of Some maker \<Rightarrow> True | None \<Rightarrow> False)"

text \<open>
  \<^verbatim>\<open>reflect.MakeFunc(t, fn).Interface()\<close>: a function value of the type \<open>t\<close>, a panic
  when \<open>t\<close> is no function type.
\<close>

definition reflect_MakeFunc :: "rtype \<Rightarrow> invoker \<Rightarrow> 'a panic + 'a Value" where
  "reflect_MakeFunc t m =
     (case t of
        Func ins outs \<Rightarrow> Inr (MakeFunc t m)
      | _ \<Rightarrow> Inl (RuntimeError ''reflect: call of MakeFunc with non-Func type''))"

text \<open>
  \<^verbatim>\<open>makeIter\<close>. \<open>UnfoldIter\<close> is \<^verbatim>\<open>funcx.UnfoldIter\<close>, declared in another package and taken
  as a parameter: the element types of an iterator function type, or nothing.
\<close>

definition makeIter ::
  "('a, 's, 'x) registry \<Rightarrow> (rtype \<Rightarrow> rtype list option) \<Rightarrow> rtype \<Rightarrow> ('a, 's) ReStream option \<Rightarrow>
     'a panic + ('a, 's, 'x) ReusableInput" where
  "makeIter inputs UnfoldIter t s =
     (case inputs t of
        Some maker \<Rightarrow> Inr (maker s)
      | None \<Rightarrow>
          (case UnfoldIter t of
             None \<Rightarrow> Inl (PanicTypef ''illegal iter type: '' t)
           | Some types \<Rightarrow>
               (case reflect_MakeFunc t IterInvoke of
                  Inl p \<Rightarrow> Inl p
                | Inr f \<Rightarrow>
                    Inr (IterValue \<lparr>iter_s = s, iter_fn = f, iter_types = types,
                                    iter_cur = None\<rparr>))))"

subsection \<open>reIterValue: the re-iterable factory\<close>

text \<open>\<^verbatim>\<open>type reIterValue struct { t reflect.Type; s ReStream; fn interface{} }\<close>.\<close>

record ('a, 's) reIterValue =
  reiter_t :: rtype
  reiter_s :: "('a, 's) ReStream option"
  reiter_fn :: "'a Value"

text \<open>
  \<^verbatim>\<open>t.Out(i)\<close> of package reflect: the \<open>i\<close>-th result type of a function type, a panic
  for any other type or index.
\<close>

definition Out :: "rtype \<Rightarrow> nat \<Rightarrow> 'a panic + rtype" where
  "Out t i =
     (case t of
        Func ins outs \<Rightarrow>
          if i < length outs then Inr (outs ! i)
          else Inl (RuntimeError ''reflect: Func index out of bounds'')
      | _ \<Rightarrow> Inl (RuntimeError ''reflect: Out of non-func type''))"

text \<open>\<^verbatim>\<open>makeReIter\<close>; \<open>IsReIter\<close> is \<^verbatim>\<open>funcx.IsReIter\<close>, taken as a parameter.\<close>

definition makeReIter ::
  "(rtype \<Rightarrow> bool) \<Rightarrow> rtype \<Rightarrow> ('a, 's) ReStream option \<Rightarrow> 'a panic + ('a, 's) reIterValue" where
  "makeReIter IsReIter t s =
     (if \<not> IsReIter t then Inl (PanicTypef ''illegal re-iter type: '' t)
      else
        (case reflect_MakeFunc t ReIterInvoke of
           Inl p \<Rightarrow> Inl p
         | Inr f \<Rightarrow> Inr \<lparr>reiter_t = t, reiter_s = s, reiter_fn = f\<rparr>))"

text \<open>
  \<^verbatim>\<open>iter := makeIter(t, s); iter.Init(); return iter.Value()\<close>, the common tail of the two
  factories. The error that \<^verbatim>\<open>Init\<close> returns is dropped; a panic is not. The function
  value returned is bound to the new iterator, which nothing else refers to: the model
  returns that iterator with it.
\<close>

definition freshIter ::
  "('a, 's, 'x) registry \<Rightarrow> (rtype \<Rightarrow> rtype list option) \<Rightarrow> rtype \<Rightarrow> ('a, 's) ReStream option \<Rightarrow>
     'a panic + 'a Value \<times> ('a, 's, 'x) ReusableInput" where
  "freshIter inputs UnfoldIter t s =
     (case makeIter inputs UnfoldIter t s of
        Inl p \<Rightarrow> Inl p
      | Inr iter \<Rightarrow>
          (case ReusableInput_Init iter of
             (Inl p, iter') \<Rightarrow> Inl p
           | (Inr err, iter') \<Rightarrow>
               (case ReusableInput_Value iter' of
                  Inl p \<Rightarrow> Inl p
                | Inr f \<Rightarrow> Inr (f, iter'))))"

text \<open>
  \<^verbatim>\<open>reIterValue.invoke\<close>: \<^verbatim>\<open>iter := makeIter(v.t.Out(0), v.s); iter.Init();
  return []reflect.Value{reflect.ValueOf(iter.Value())}\<close>. It reads the struct and the
  registry and writes neither.
\<close>

definition reIterValue_invoke ::
  "('a, 's, 'x) registry \<Rightarrow> (rtype \<Rightarrow> rtype list option) \<Rightarrow> ('a, 's) reIterValue \<Rightarrow>
     'a reflectValue list \<Rightarrow> 'a panic + 'a Value \<times> ('a, 's, 'x) ReusableInput" where
  "reIterValue_invoke inputs UnfoldIter v args =
     (case Out (reiter_t v) 0 of
        Inl p \<Rightarrow> Inl p
      | Inr t \<Rightarrow> freshIter inputs UnfoldIter t (reiter_s v))"

subsection \<open>multiMapValue: the keyed multimap accessor\<close>

text \<open>
  \<^verbatim>\<open>type multiMapValue struct { t, keyType reflect.Type; ctx context.Context;
  adapter SideInputAdapter; reader StateReader; w typex.Window; fn interface{} }\<close>. The
  context, the state reader and the window are opaque (\<open>'c\<close>, \<open>'r\<close>, \<open>'w\<close>); the adapter
  is its method \<^verbatim>\<open>NewKeyedIterable(ctx, reader, w, key) (ReStream, error)\<close>, applied to
  what \<^verbatim>\<open>invoke\<close> passes for \<^verbatim>\<open>key\<close>, a \<^verbatim>\<open>reflect.Value\<close>.
\<close>

record ('a, 's, 'c, 'r, 'w) multiMapValue =
  mm_t :: rtype
  mm_keyType :: rtype
  mm_ctx :: 'c
  mm_adapter :: "'c \<Rightarrow> 'r \<Rightarrow> 'w \<Rightarrow> 'a reflectValue \<Rightarrow> ('a, 's) ReStream option \<times> error option"
  mm_reader :: 'r
  mm_w :: 'w
  mm_fn :: "'a Value"

text \<open>\<^verbatim>\<open>makeMultiMap\<close>; \<open>UnfoldMultiMap\<close> is \<^verbatim>\<open>funcx.UnfoldMultiMap\<close>, a parameter.\<close>

definition makeMultiMap ::
  "(rtype \<Rightarrow> rtype list option) \<Rightarrow> 'c \<Rightarrow> rtype \<Rightarrow>
     ('c \<Rightarrow> 'r \<Rightarrow> 'w \<Rightarrow> 'a reflectValue \<Rightarrow> ('a, 's) ReStream option \<times> error option) \<Rightarrow> 'r \<Rightarrow> 'w \<Rightarrow>
     'a panic + ('a, 's, 'c, 'r, 'w) multiMapValue" where
  "makeMultiMap UnfoldMultiMap ctx t adapter reader w =
     (case UnfoldMultiMap t of
        None \<Rightarrow> Inl (PanicTypef ''illegal multimap type: '' t)
      | Some types \<Rightarrow>
          (case types of
             [] \<Rightarrow> Inl (RuntimeError ''index out of range'')
           | keyType # rest \<Rightarrow>
               (case reflect_MakeFunc t MultiMapInvoke of
                  Inl p \<Rightarrow> Inl p
                | Inr f \<Rightarrow>
                    Inr \<lparr>mm_t = t, mm_keyType = keyType, mm_ctx = ctx, mm_adapter = adapter,
                         mm_reader = reader, mm_w = w, mm_fn = f\<rparr>)))"

text \<open>
  \<^verbatim>\<open>multiMapValue.invoke\<close>. In
  \<^verbatim>\<open>key := reflect.ValueOf(Convert(args[0], v.keyType))\<close> the argument of \<^verbatim>\<open>Convert\<close> is
  the \<^verbatim>\<open>reflect.Value\<close> \<^verbatim>\<open>args[0]\<close> itself, boxed as an \<^verbatim>\<open>interface{}\<close>, not the key
  that it holds; the result is wrapped in a \<^verbatim>\<open>reflect.Value\<close> again and passed to the
  adapter. The adapter's stream is kept and its error is assigned to the blank identifier;
  then the common tail.
\<close>

definition multiMapValue_invoke ::
  "('a Value \<Rightarrow> rtype \<Rightarrow> 'a Value) \<Rightarrow> ('a, 's, 'x) registry \<Rightarrow> (rtype \<Rightarrow> rtype list option) \<Rightarrow>
     ('a, 's, 'c, 'r, 'w) multiMapValue \<Rightarrow> 'a reflectValue list \<Rightarrow>
     'a panic + 'a Value \<times> ('a, 's, 'x) ReusableInput" where
  "multiMapValue_invoke Convert inputs UnfoldIter v args =
     (if length args \<noteq> 1 then Inl (PanicArgsf ''wanted one key value, got '' args)
      else
        (case mm_adapter v (mm_ctx v) (mm_reader v) (mm_w v)
                (ValueOf (Convert (Reflected (args ! 0)) (mm_keyType v))) of
           (rs, err) \<Rightarrow>
             (case Out (mm_t v) 0 of
                Inl p \<Rightarrow> Inl p
              | Inr t \<Rightarrow> freshIter inputs UnfoldIter t rs)))"

subsection \<open>Callers and streams used to state the properties\<close>

text \<open>
  User code calls the callable again and again with the same out parameters. \<open>calls\<close>
  performs \<open>n\<close> such calls and records, for each, the result and the out parameters after
  it; it also returns the out parameters and the iterator after the last call.
\<close>

fun calls ::
  "('a Value \<Rightarrow> rtype \<Rightarrow> 'a Value) \<Rightarrow> (rtype \<Rightarrow> rtype \<Rightarrow> bool) \<Rightarrow> ('a, 's) iterValue \<Rightarrow>
     'a reflectValue list \<Rightarrow> nat \<Rightarrow>
     (('a panic + bool) \<times> 'a reflectValue list) list \<times> 'a reflectValue list \<times> ('a, 's) iterValue" where
  "calls Convert AssignableTo v args 0 = ([], args, v)"
| "calls Convert AssignableTo v args (Suc n) =
     (case iterValue_invoke Convert AssignableTo v args of
        (r, args', v') \<Rightarrow>
          (case calls Convert AssignableTo v' args' n of
             (obs, args'', v'') \<Rightarrow> ((r, args') # obs, args'', v'')))"

text \<open>
  A cursor contains the records \<open>xs\<close>: its reads return them in order, and then
  end-of-stream.
\<close>

fun yields :: "('a, 's) Stream \<Rightarrow> 'a FullValue list \<Rightarrow> bool" where
  "yields c [] = (fst (Stream_Read c) = Inl EOF)"
| "yields c (x # xs) = (fst (Stream_Read c) = Inr x \<and> yields (snd (Stream_Read c)) xs)"

text \<open>
  The field mapping in the spec's words: a slot of type event time receives the timestamp;
  the first slot that is not of that type (every slot before it is) receives the primary
  value converted to the slot's type; any later such slot receives the secondary value.
\<close>

definition spec_slot ::
  "('a Value \<Rightarrow> rtype \<Rightarrow> 'a Value) \<Rightarrow> 'a FullValue \<Rightarrow> rtype list \<Rightarrow> nat \<Rightarrow> 'a Value" where
  "spec_slot Convert elm types i =
     (if types ! i = EventTimeType then TimeValue (Timestamp elm)
      else if list_all (\<lambda>t. t = EventTimeType) (take i types) then Convert (Elm elm) (types ! i)
      else Convert (Elm2 elm) (types ! i))"

text \<open>
  The same mapping for the slots \<open>ts\<close> that the loop has still to fill, when the primary
  value is (\<open>isKey\<close>) or is not to be handed out any more.
\<close>

definition slot_from ::
  "('a Value \<Rightarrow> rtype \<Rightarrow> 'a Value) \<Rightarrow> 'a FullValue \<Rightarrow> bool \<Rightarrow> rtype list \<Rightarrow> nat \<Rightarrow> 'a Value" where
  "slot_from Convert elm isKey ts j =
     (if ts ! j = EventTimeType then TimeValue (Timestamp elm)
      else if isKey \<and> list_all (\<lambda>t. t = EventTimeType) (take j ts) then Convert (Elm elm) (ts ! j)
      else Convert (Elm2 elm) (ts ! j))"

text \<open>
  The variable behind an out parameter: its content, and the out parameter with another
  content of the variable.
\<close>

fun pointee :: "'a reflectValue \<Rightarrow> 'a Value option" where
  "pointee (PtrTo T x) = Some x"
| "pointee NilPtr = None"
| "pointee (ValueOf y) = None"

fun store :: "'a reflectValue \<Rightarrow> 'a Value \<Rightarrow> 'a reflectValue" where
  "store (PtrTo T old) x = PtrTo T x"
| "store NilPtr x = NilPtr"
| "store (ValueOf y) x = ValueOf y"

text \<open>
  The configuration that the spec assumes (section 6: conversion is total, a mismatch is a
  configuration error): the out parameter \<open>a\<close> is the address of a variable, and the value
  \<open>x\<close> is of a type assignable to that variable. A record fits the out parameters when
  there is one for every declared type and the value that the spec maps to each slot can
  be stored in it.
\<close>

definition settable :: "(rtype \<Rightarrow> rtype \<Rightarrow> bool) \<Rightarrow> 'a reflectValue \<Rightarrow> 'a Value \<Rightarrow> bool" where
  "settable AssignableTo a x =
     (case a of
        PtrTo T old \<Rightarrow> (case TypeOf x of Some vt \<Rightarrow> AssignableTo vt T | None \<Rightarrow> False)
      | _ \<Rightarrow> False)"

definition fits ::
  "('a Value \<Rightarrow> rtype \<Rightarrow> 'a Value) \<Rightarrow> (rtype \<Rightarrow> rtype \<Rightarrow> bool) \<Rightarrow> rtype list \<Rightarrow>
     'a reflectValue list \<Rightarrow> 'a FullValue \<Rightarrow> bool" where
  "fits Convert AssignableTo types args elm =
     (length types \<le> length args \<and>
      list_all (\<lambda>i. settable AssignableTo (args ! i) (spec_slot Convert elm types i))
        [0..<length types])"

text \<open>
  What the caller finds in its out parameters after a call that read the record \<open>elm\<close>:
  the mapped values in the variables of the declared slots, and the out parameters beyond
  the declared types as they were.
\<close>

definition spec_out ::
  "('a Value \<Rightarrow> rtype \<Rightarrow> 'a Value) \<Rightarrow> rtype list \<Rightarrow> 'a reflectValue list \<Rightarrow> 'a FullValue \<Rightarrow>
     'a reflectValue list" where
  "spec_out Convert types args elm =
     map (\<lambda>i. store (args ! i) (spec_slot Convert elm types i)) [0..<length types] @
     drop (length types) args"

text \<open>
  A complete pass over the records \<open>xs\<close> as the spec describes it: one success per
  record, each with its fields mapped, then one \<open>false\<close> that leaves the out parameters
  as the last success left them.
\<close>

definition spec_run ::
  "('a Value \<Rightarrow> rtype \<Rightarrow> 'a Value) \<Rightarrow> rtype list \<Rightarrow> 'a reflectValue list \<Rightarrow> 'a FullValue list \<Rightarrow>
     (('a panic + bool) \<times> 'a reflectValue list) list" where
  "spec_run Convert types args xs =
     map (\<lambda>x. (Inr True, spec_out Convert types args x)) xs @
     [(Inr False, last (args # map (spec_out Convert types args) xs))]"

text \<open>
  The iterator that \<^verbatim>\<open>makeIter\<close> builds by reflection for the type \<open>t\<close> over the stream
  \<open>rs\<close>, once \<^verbatim>\<open>Init\<close> has stored the cursor \<open>c\<close>.
\<close>

definition initializedIter ::
  "rtype \<Rightarrow> rtype list \<Rightarrow> ('a, 's) ReStream \<Rightarrow> ('a, 's) Stream \<Rightarrow> ('a, 's) iterValue" where
  "initializedIter t types rs c =
     \<lparr>iter_s = Some rs, iter_fn = MakeFunc t IterInvoke, iter_types = types, iter_cur = Some c\<rparr>"

text \<open>
  What the common tail of the two factories does with the product of a registered maker:
  it calls \<^verbatim>\<open>Init\<close>, drops the error, and returns \<^verbatim>\<open>Value()\<close> of the product.
\<close>

definition initAndValue ::
  "('a, 's, 'x) ReusableInput \<Rightarrow> 'a panic + 'a Value \<times> ('a, 's, 'x) ReusableInput" where
  "initAndValue iter =
     (case ReusableInput_Init iter of
        (Inl p, iter') \<Rightarrow> Inl p
      | (Inr err, iter') \<Rightarrow>
          (case ReusableInput_Value iter' of
             Inl p \<Rightarrow> Inl p
           | Inr f \<Rightarrow> Inr (f, iter')))"

text \<open>
  Modelled from the spec: a list-backed Element Stream (the package's own one is declared
  outside input.go). Its cursor returns the buffered records in order and then
  end-of-stream; closing it succeeds; opening it gives a cursor at the first record.
\<close>

definition FixedStream :: "'a FullValue list \<Rightarrow> ('a, 'a FullValue list) Stream" where
  "FixedStream buf =
     Stream buf
       (\<lambda>b. case b of [] \<Rightarrow> (Inl EOF, []) | x # rest \<Rightarrow> (Inr x, rest))
       (\<lambda>b. (None, b))"

text \<open>
  Modelled from the spec: the restartable stream over a buffer (declared outside
  input.go); every \<^verbatim>\<open>Open\<close> gives a new cursor over the whole buffer.
\<close>

definition FixedReStream :: "'a FullValue list \<Rightarrow> ('a, 'a FullValue list) ReStream" where
  "FixedReStream buf = ReStream (Inr (FixedStream buf))"


text \<open>
  Modelled from the spec: a side-input adapter over keyed state (the adapter is declared
  outside input.go). The state maps a window and a key to the stored records; the adapter
  looks up what it is handed as the key, and an absent key gives an empty stream, never an
  error (spec section 4.5). What \<^verbatim>\<open>invoke\<close> hands it is a \<^verbatim>\<open>reflect.Value\<close>.
\<close>

definition stateAdapter ::
  "('w \<times> 'a Value \<rightharpoonup> 'a FullValue list) \<Rightarrow> 'c \<Rightarrow> 'r \<Rightarrow> 'w \<Rightarrow> 'a reflectValue \<Rightarrow>
     ('a, 'a FullValue list) ReStream option \<times> error option" where
  "stateAdapter state ctx reader w key =
     (case state (w, Reflected key) of
        None \<Rightarrow> (Some (FixedReStream []), None)
      | Some recs \<Rightarrow> (Some (FixedReStream recs), None))"

text \<open>
  A cursor of a broken transport: every read and the close fail with the error \<open>e\<close>.
\<close>

definition failingStream :: "error \<Rightarrow> ('a, unit) Stream" where
  "failingStream e = Stream () (\<lambda>u. (Inl e, ())) (\<lambda>u. (Some e, ()))"

text \<open>Registrations made one after the other, the head of the list first.\<close>

fun RegisterAll ::
  "(rtype \<times> (('a, 's) ReStream option \<Rightarrow> ('a, 's, 'x) ReusableInput)) list \<Rightarrow>
     ('a, 's, 'x) registry \<Rightarrow> ('a, 's, 'x) registry" where
  "RegisterAll [] inputs = inputs"
| "RegisterAll ((t, maker) # rest) inputs = RegisterAll rest (RegisterInput t maker inputs)"

subsection \<open>Sample inputs\<close>

text \<open>
  The function types \<^verbatim>\<open>func(*int) bool\<close>, \<^verbatim>\<open>func() func(*int) bool\<close> and
  \<^verbatim>\<open>func(string) func(*int) bool\<close>; a shape analyser that knows the first of them; the
  identity conversion; assignability between identical types; user data that is an
  integer or a string; variables of the three types; three records.
\<close>

definition iterT :: rtype where
  "iterT = Func [Ptr (Named ''int'')] [Named ''bool'']"

definition reIterT :: rtype where
  "reIterT = Func [] [iterT]"

definition multiMapT :: rtype where
  "multiMapT = Func [Named ''string''] [iterT]"

definition sampleUnfoldIter :: "rtype \<Rightarrow> rtype list option" where
  "sampleUnfoldIter t = (if t = iterT then Some [Named ''int''] else None)"

definition noConvert :: "(int + string) Value \<Rightarrow> rtype \<Rightarrow> (int + string) Value" where
  "noConvert x t = x"

definition identical :: "rtype \<Rightarrow> rtype \<Rightarrow> bool" where
  "identical vt T = (vt = T)"

definition intData :: "int \<Rightarrow> (int + string) Value" where
  "intData n = Data (Named ''int'') (Inl n)"

definition stringData :: "string \<Rightarrow> (int + string) Value" where
  "stringData s = Data (Named ''string'') (Inr s)"

definition intVar :: "int \<Rightarrow> (int + string) reflectValue" where
  "intVar n = PtrTo (Named ''int'') (intData n)"

definition stringVar :: "string \<Rightarrow> (int + string) reflectValue" where
  "stringVar s = PtrTo (Named ''string'') (stringData s)"

definition timeVar :: "EventTime \<Rightarrow> (int + string) reflectValue" where
  "timeVar ts = PtrTo EventTimeType (TimeValue ts)"

definition rec7 :: "(int + string) FullValue" where
  "rec7 = \<lparr>Elm = intData 7, Elm2 = stringData ''x'', Timestamp = 1000\<rparr>"

definition rec8 :: "(int + string) FullValue" where
  "rec8 = \<lparr>Elm = intData 8, Elm2 = stringData ''y'', Timestamp = 2000\<rparr>"

definition rec9 :: "(int + string) FullValue" where
  "rec9 = \<lparr>Elm = intData 9, Elm2 = stringData ''z'', Timestamp = 3000\<rparr>"

text \<open>A sequential iterator as \<^verbatim>\<open>makeIter\<close> leaves it, and the same with a cursor.\<close>

definition newIter ::
  "rtype list \<Rightarrow> (int + string) FullValue list \<Rightarrow>
     (int + string, (int + string) FullValue list) iterValue" where
  "newIter types recs =
     \<lparr>iter_s = Some (FixedReStream recs), iter_fn = MakeFunc iterT IterInvoke,
      iter_types = types, iter_cur = None\<rparr>"

definition openIter ::
  "rtype list \<Rightarrow> (int + string, 's) Stream \<Rightarrow> (int + string, 's) iterValue" where
  "openIter types c =
     \<lparr>iter_s = None, iter_fn = MakeFunc iterT IterInvoke, iter_types = types,
      iter_cur = Some c\<rparr>"

text \<open>
  A specialised implementation that a maker may return, a fixed value, and the maker that
  returns it for every stream.
\<close>

definition fixedInput ::
  "(int + string) Value \<Rightarrow> (int + string, (int + string) FullValue list, unit) ReusableInput" where
  "fixedInput x = Registered () (\<lambda>u. (Inr None, u)) (\<lambda>u. Inr x) (\<lambda>u. (Inr None, u))"

definition fixedMaker ::
  "(int + string) Value \<Rightarrow> (int + string, (int + string) FullValue list) ReStream option \<Rightarrow>
     (int + string, (int + string) FullValue list, unit) ReusableInput" where
  "fixedMaker x s = fixedInput x"

text \<open>Keyed state with the three records under the key \<^verbatim>\<open>"a"\<close> of window 0.\<close>

definition sampleState :: "nat \<times> (int + string) Value \<rightharpoonup> (int + string) FullValue list" where
  "sampleState = [(0, stringData ''a'') \<mapsto> [rec7, rec8, rec9]]"

definition sampleMultiMap ::
  "(int + string, (int + string) FullValue list, unit, unit, nat) multiMapValue" where
  "sampleMultiMap =
     \<lparr>mm_t = multiMapT, mm_keyType = Named ''string'', mm_ctx = (),
      mm_adapter = stateAdapter sampleState, mm_reader = (), mm_w = 0,
      mm_fn = MakeFunc multiMapT MultiMapInvoke\<rparr>"

definition sampleReIter ::
  "(int + string, (int + string) FullValue list) reIterValue" where
  "sampleReIter =
     \<lparr>reiter_t = reIterT, reiter_s = Some (FixedReStream [rec7, rec8, rec9]),
      reiter_fn = MakeFunc reIterT ReIterInvoke\<rparr>"

text \<open>
  The registry with no specialised maker, the registry with the fixed value 1 registered
  for the iterator type, and the iterators that the two factories hand out over the three
  records and over no record.
\<close>

definition noInputs :: "(int + string, (int + string) FullValue list, unit) registry" where
  "noInputs = Map.empty"

definition fixedInputs :: "(int + string, (int + string) FullValue list, unit) registry" where
  "fixedInputs = RegisterInput iterT (fixedMaker (intData 1)) noInputs"

definition sampleIter :: "(int + string, (int + string) FullValue list) iterValue" where
  "sampleIter =
     initializedIter iterT [Named ''int''] (FixedReStream [rec7, rec8, rec9])
       (FixedStream [rec7, rec8, rec9])"

definition emptyIter :: "(int + string, (int + string) FullValue list) iterValue" where
  "emptyIter = initializedIter iterT [Named ''int''] (FixedReStream []) (FixedStream [])"

section \<open>Properties\<close>

subsection \<open>The loop over the slots and repeated calls\<close>

text \<open>
  When every slot can be stored to, the loop never panics: it leaves the out parameters
  before \<open>i\<close> and after the last type alone and stores one value per type.
\<close>

lemma spec_slot_slot_from: "spec_slot C e ts = slot_from C e True ts"
  by (rule ext) (simp add: spec_slot_def slot_from_def)

lemma Elem_Set_settable: "settable A a x \<Longrightarrow> Elem_Set A a x = Inr (store a x)"
  by (cases a) (auto simp: settable_def Elem_Set_def split: option.splits)

lemma settable_store [simp]: "settable A (store a x) y = settable A a y"
  by (cases a) (simp_all add: settable_def)

lemma store_store [simp]: "store (store a x) y = store a y"
  by (cases a) simp_all

lemma pointee_store: "settable A a x \<Longrightarrow> pointee (store a x) = Some x"
  by (cases a) (simp_all add: settable_def)

lemma slot_from_Suc:
  "slot_from C e k (t # ts) (Suc j) = slot_from C e (k \<and> t = EventTimeType) ts j"
  by (simp add: slot_from_def)

lemma fill_slots:
  assumes "i + length ts \<le> length args"
    and "\<forall>j<length ts. settable A (args ! (i + j)) (slot_from C e k ts j)"
  shows "fill C A e ts i k args =
     (None, take i args @
        map (\<lambda>j. store (args ! (i + j)) (slot_from C e k ts j)) [0..<length ts] @
        drop (i + length ts) args)"
  using assms
proof (induction ts arbitrary: i k args)
  case Nil
  then show ?case by simp
next
  case (Cons t ts)
  let ?x = "slot_from C e k (t # ts) 0"
  let ?k' = "k \<and> t = EventTimeType"
  let ?a = "store (args ! i) ?x"
  let ?args' = "args[i := ?a]"
  have len: "i < length args" using Cons.prems(1) by simp
  have s0: "settable A (args ! i) ?x" using Cons.prems(2) by auto
  have es: "Elem_Set A (args ! i) ?x = Inr ?a" by (rule Elem_Set_settable[OF s0])
  have step: "fill C A e (t # ts) i k args = fill C A e ts (Suc i) ?k' ?args'"
    using len es by (auto simp: slot_from_def)
  have l': "Suc i + length ts \<le> length ?args'" using Cons.prems(1) by simp
  have s': "\<forall>j<length ts. settable A (?args' ! (Suc i + j)) (slot_from C e ?k' ts j)"
  proof (intro allI impI)
    fix j assume j: "j < length ts"
    have "settable A (args ! (i + Suc j)) (slot_from C e k (t # ts) (Suc j))"
      using Cons.prems(2) j by auto
    then show "settable A (?args' ! (Suc i + j)) (slot_from C e ?k' ts j)"
      by (simp add: slot_from_Suc)
  qed
  have tk: "take (Suc i) ?args' = take i args @ [?a]"
    using len by (simp add: take_Suc_conv_app_nth)
  have mp: "map (\<lambda>j. store (?args' ! (Suc i + j)) (slot_from C e ?k' ts j)) [0..<length ts]
          = map (\<lambda>j. store (args ! (i + Suc j)) (slot_from C e k (t # ts) (Suc j))) [0..<length ts]"
    by (simp add: slot_from_Suc)
  have "fill C A e ts (Suc i) ?k' ?args' =
     (None, take (Suc i) ?args' @
        map (\<lambda>j. store (?args' ! (Suc i + j)) (slot_from C e ?k' ts j)) [0..<length ts] @
        drop (Suc i + length ts) ?args')"
    by (rule Cons.IH[OF l' s'])
  then show ?case
    unfolding step tk mp by (simp add: map_upt_Suc del: upt_Suc)
qed

lemma fill_spec:
  assumes "fits C A ts args e"
  shows "fill C A e ts 0 True args = (None, spec_out C ts args e)"
proof -
  have l: "0 + length ts \<le> length args" using assms by (simp add: fits_def)
  have s: "\<forall>j<length ts. settable A (args ! (0 + j)) (slot_from C e True ts j)"
    using assms by (simp add: fits_def list_all_iff spec_slot_slot_from)
  show ?thesis
    using fill_slots[OF l s] by (simp add: spec_out_def spec_slot_slot_from)
qed

lemma length_spec_out:
  "length ts \<le> length args \<Longrightarrow> length (spec_out C ts args e) = length args"
  by (simp add: spec_out_def)

lemma nth_spec_out:
  "i < length ts \<Longrightarrow> spec_out C ts args e ! i = store (args ! i) (spec_slot C e ts i)"
  by (simp add: spec_out_def nth_append)

lemma nth_spec_out_rest:
  "length ts \<le> i \<Longrightarrow> i < length args \<Longrightarrow> spec_out C ts args e ! i = args ! i"
  by (simp add: spec_out_def nth_append)

lemma spec_out_spec_out:
  "spec_out C ts (spec_out C ts args e) = spec_out C ts args"
proof (rule ext)
  fix e'
  have "map (\<lambda>i. store (spec_out C ts args e ! i) (spec_slot C e' ts i)) [0..<length ts]
      = map (\<lambda>i. store (args ! i) (spec_slot C e' ts i)) [0..<length ts]"
    by (rule map_cong) (simp_all add: nth_spec_out)
  moreover have "drop (length ts) (spec_out C ts args e) = drop (length ts) args"
    by (simp add: spec_out_def)
  ultimately show "spec_out C ts (spec_out C ts args e) e' = spec_out C ts args e'"
    by (simp add: spec_out_def)
qed

lemma fits_spec_out:
  "length ts \<le> length args \<Longrightarrow> fits C A ts (spec_out C ts args e) e' = fits C A ts args e'"
  by (simp add: fits_def length_spec_out list_all_iff nth_spec_out)


lemma invoke_eof:
  assumes "iter_cur v = Some c" "Stream_Read c = (Inl EOF, c')"
  shows "iterValue_invoke C A v args = (Inr False, args, v\<lparr>iter_cur := Some c'\<rparr>)"
  using assms by (simp add: iterValue_invoke_def)

lemma invoke_record:
  assumes "iter_cur v = Some c" "Stream_Read c = (Inr x, c')"
    "fits C A (iter_types v) args x"
  shows "iterValue_invoke C A v args =
    (Inr True, spec_out C (iter_types v) args x, v\<lparr>iter_cur := Some c'\<rparr>)"
  using assms by (simp add: iterValue_invoke_def fill_spec)

lemma calls_step:
  "iterValue_invoke C A v args = (r, a1, v1) \<Longrightarrow>
   calls C A v args (Suc n) = ((r, a1) # fst (calls C A v1 a1 n), snd (calls C A v1 a1 n))"
  by (simp add: split_beta)

lemma list_all_fits_spec_out:
  "length ts \<le> length args \<Longrightarrow>
   list_all (fits C A ts (spec_out C ts args e)) xs = list_all (fits C A ts args) xs"
  by (simp add: list_all_iff fits_spec_out)

lemma calls_prefix:
  assumes "iter_cur v = Some c" "yields c xs"
    "list_all (fits C A (iter_types v) args) xs" "k \<le> length xs"
  shows "\<exists>c'. calls C A v args k =
           (map (\<lambda>x. (Inr True, spec_out C (iter_types v) args x)) (take k xs),
            last (args # map (spec_out C (iter_types v) args) (take k xs)),
            v\<lparr>iter_cur := Some c'\<rparr>) \<and>
         yields c' (drop k xs)"
  using assms
proof (induction k arbitrary: v c xs args)
  case 0
  then show ?case by (intro exI[of _ c]) simp
next
  case (Suc k)
  then obtain x xs' where xs: "xs = x # xs'" by (cases xs) auto
  obtain c1 where rd: "Stream_Read c = (Inr x, c1)" and y1: "yields c1 xs'"
    using Suc.prems(2) xs by (cases "Stream_Read c") auto
  let ?ts = "iter_types v"
  let ?a1 = "spec_out C ?ts args x"
  let ?v1 = "v\<lparr>iter_cur := Some c1\<rparr>"
  have fx: "fits C A ?ts args x" and fxs: "list_all (fits C A ?ts args) xs'"
    using Suc.prems(3) xs by simp_all
  have len: "length ?ts \<le> length args" using fx by (simp add: fits_def)
  have inv: "iterValue_invoke C A v args = (Inr True, ?a1, ?v1)"
    using invoke_record[OF Suc.prems(1) rd fx] .
  have f1: "list_all (fits C A (iter_types ?v1) ?a1) xs'"
    using fxs len by (simp add: list_all_fits_spec_out)
  have k: "k \<le> length xs'" using Suc.prems(4) xs by simp
  have c1: "iter_cur ?v1 = Some c1" by simp
  obtain c' where
    o: "calls C A ?v1 ?a1 k =
           (map (\<lambda>x. (Inr True, spec_out C ?ts args x)) (take k xs'),
            last (?a1 # map (spec_out C ?ts args) (take k xs')),
            v\<lparr>iter_cur := Some c'\<rparr>)"
    and y: "yields c' (drop k xs')"
    using Suc.IH[OF c1 y1 f1 k] by (auto simp: spec_out_spec_out)
  have st: "calls C A v args (Suc k) =
      ((Inr True, ?a1) # fst (calls C A ?v1 ?a1 k), snd (calls C A ?v1 ?a1 k))"
    by (rule calls_step[OF inv])
  show ?case
    unfolding st o using y xs by (intro exI[of _ c']) simp
qed

lemma calls_all:
  assumes "iter_cur v = Some c" "yields c xs" "list_all (fits C A (iter_types v) args) xs"
  shows "fst (calls C A v args (Suc (length xs))) = spec_run C (iter_types v) args xs"
  using assms
proof (induction xs arbitrary: v c args)
  case Nil
  obtain c1 where rd: "Stream_Read c = (Inl EOF, c1)"
    using Nil.prems(2) by (cases "Stream_Read c") auto
  show ?case using invoke_eof[OF Nil.prems(1) rd] by (simp add: spec_run_def)
next
  case (Cons x xs)
  obtain c1 where rd: "Stream_Read c = (Inr x, c1)" and y1: "yields c1 xs"
    using Cons.prems(2) by (cases "Stream_Read c") auto
  let ?ts = "iter_types v"
  let ?a1 = "spec_out C ?ts args x"
  let ?v1 = "v\<lparr>iter_cur := Some c1\<rparr>"
  have fx: "fits C A ?ts args x" and fxs: "list_all (fits C A ?ts args) xs"
    using Cons.prems(3) by simp_all
  have len: "length ?ts \<le> length args" using fx by (simp add: fits_def)
  have inv: "iterValue_invoke C A v args = (Inr True, ?a1, ?v1)"
    using invoke_record[OF Cons.prems(1) rd fx] .
  have f1: "list_all (fits C A (iter_types ?v1) ?a1) xs"
    using fxs len by (simp add: list_all_fits_spec_out)
  have c1: "iter_cur ?v1 = Some c1" by simp
  have ih: "fst (calls C A ?v1 ?a1 (Suc (length xs))) = spec_run C ?ts ?a1 xs"
    using Cons.IH[OF c1 y1 f1] by simp
  have "fst (calls C A v args (Suc (length (x # xs)))) =
      (Inr True, ?a1) # spec_run C ?ts ?a1 xs"
    unfolding length_Cons calls_step[OF inv] fst_conv ih ..
  then show ?case by (simp add: spec_run_def spec_out_spec_out)
qed

lemma map_fst_spec_run:
  "map fst (spec_run C ts args xs) = replicate (length xs) (Inr True) @ [Inr False]"
  by (simp add: spec_run_def comp_def map_replicate_const)

lemma take_spec_run:
  "k \<le> length xs \<Longrightarrow>
   take k (spec_run C ts args xs) = map (\<lambda>x. (Inr True, spec_out C ts args x)) (take k xs)"
  by (simp add: spec_run_def take_map)

lemma iter_types_initializedIter [simp]: "iter_types (initializedIter t types rs c) = types"
  by (simp add: initializedIter_def)

lemma iter_cur_initializedIter [simp]: "iter_cur (initializedIter t types rs c) = Some c"
  by (simp add: initializedIter_def)

lemma RegisterAll_other:
  "t \<notin> fst ` set later \<Longrightarrow> RegisterAll later inputs t = inputs t"
  by (induction later arbitrary: inputs) (auto simp: RegisterInput_def)

lemma freshIter_reflective:
  assumes "inputs (Func tin tout) = None" and "UnfoldIter (Func tin tout) = Some types"
    and "Open rs = Inr c"
  shows "freshIter inputs UnfoldIter (Func tin tout) (Some rs) =
           Inr (MakeFunc (Func tin tout) IterInvoke,
                IterValue (initializedIter (Func tin tout) types rs c))"
  using assms
  by (simp add: freshIter_def makeIter_def reflect_MakeFunc_def iterValue_Init_def
        iterValue_Value_def initializedIter_def)

lemma freshIter_registered:
  assumes "inputs t = Some maker"
  shows "freshIter inputs UnfoldIter t s = initAndValue (maker s)"
  using assms by (simp add: freshIter_def makeIter_def initAndValue_def)

lemma Out_Func_0: "Out (Func ins (t # outs)) 0 = Inr t"
  by (simp add: Out_def)

lemma list_all_fits_last:
  assumes "list_all (fits C A ts args) xs"
  shows "list_all (fits C A ts (last (args # map (spec_out C ts args) ys))) xs"
proof (cases ys rule: rev_cases)
  case Nil
  then show ?thesis using assms by simp
next
  case (snoc zs y)
  show ?thesis
  proof (cases xs)
    case Nil
    then show ?thesis by simp
  next
    case (Cons x xs')
    then have "length ts \<le> length args" using assms by (simp add: fits_def)
    then show ?thesis using assms snoc by (simp add: list_all_fits_spec_out)
  qed
qed

lemma list_all_drop: "list_all P xs \<Longrightarrow> list_all P (drop k xs)"
  by (auto simp: list_all_iff dest: in_set_dropD)

text \<open>The sample values are what the constructors of the file build.\<close>

lemma makeIter_newIter:
  "makeIter noInputs sampleUnfoldIter iterT (Some (FixedReStream recs))
     = Inr (IterValue (newIter [Named ''int''] recs))"
  by (simp add: makeIter_def reflect_MakeFunc_def noInputs_def sampleUnfoldIter_def newIter_def
        iterT_def)

lemma makeReIter_sampleReIter:
  "makeReIter (\<lambda>t. t = reIterT) reIterT (Some (FixedReStream [rec7, rec8, rec9]))
     = (Inr sampleReIter :: (int + string) panic + _)"
  by (simp add: makeReIter_def reflect_MakeFunc_def sampleReIter_def reIterT_def)

lemma makeMultiMap_sampleMultiMap:
  "makeMultiMap (\<lambda>t. if t = multiMapT then Some [Named ''string'', Named ''int''] else None)
       () multiMapT (stateAdapter sampleState) () 0
     = (Inr sampleMultiMap :: (int + string) panic + _)"
  by (simp add: makeMultiMap_def reflect_MakeFunc_def sampleMultiMap_def multiMapT_def)

text \<open>The definitions that evaluating a sample input unfolds.\<close>

lemmas sample_defs =
  sampleIter_def emptyIter_def initializedIter_def FixedReStream_def FixedStream_def
  Stream_Read_def iterValue_invoke_def Elem_Set_def noConvert_def identical_def
  intData_def stringData_def intVar_def stringVar_def timeVar_def rec7_def rec8_def rec9_def
  sampleUnfoldIter_def noInputs_def iterT_def reIterT_def multiMapT_def

text \<open>
  Records that do not fit make the callable panic in \<^verbatim>\<open>Set\<close>: a string for an
  \<^verbatim>\<open>int\<close> variable, a nil secondary value, a nil pointer passed as out parameter.
\<close>

lemma invoke_unassignable_panics:
  "iterValue_invoke noConvert identical
     (openIter [Named ''int'']
        (FixedStream [\<lparr>Elm = stringData ''x'', Elm2 = NilValue, Timestamp = 0\<rparr>]))
     [intVar 0]
   = (Inl (RuntimeError ''reflect.Set: value is not assignable to type''), [intVar 0],
      openIter [Named ''int''] (FixedStream []))"
  by (simp add: openIter_def sample_defs)

lemma invoke_nil_value_panics:
  "iterValue_invoke noConvert identical
     (openIter [Named ''int'', Named ''string'']
        (FixedStream [\<lparr>Elm = intData 7, Elm2 = NilValue, Timestamp = 0\<rparr>]))
     [intVar 0, stringVar ''old'']
   = (Inl (RuntimeError ''reflect: call of reflect.Value.Set on zero Value''),
      [intVar 7, stringVar ''old''],
      openIter [Named ''int'', Named ''string''] (FixedStream []))"
  by (simp add: openIter_def sample_defs)

lemma invoke_nil_pointer_panics:
  "iterValue_invoke noConvert identical (openIter [Named ''int''] (FixedStream [rec7])) [NilPtr]
   = (Inl (RuntimeError ''reflect: call of reflect.Value.Set on zero Value''), [NilPtr],
      openIter [Named ''int''] (FixedStream []))"
  by (simp add: openIter_def sample_defs)

subsection \<open>The sequential iterator\<close>

text \<open>
  C1. Let the Element Stream of an iterator open to a cursor that contains the records
  \<open>xs\<close>, and let every record fit the out parameters that the caller passes (the
  configuration that the spec assumes: one settable out parameter per declared type, and
  conversions that yield values assignable to them). Then \<^verbatim>\<open>Init\<close> succeeds and stores
  that cursor; the next \<open>length xs + 1\<close> calls of the callable return \<open>true\<close> exactly
  \<open>length xs\<close> times and then \<open>false\<close>; and after any \<open>k\<close> of the successful calls the
  cursor contains the records from the \<open>k\<close>-th on, one record consumed per call.
\<close>

theorem iterValue_all_records_then_false:
  assumes "iter_s v = Some rs" and "Open rs = Inr c" and "yields c xs"
    and "list_all (fits Convert AssignableTo (iter_types v) args) xs"
  shows "iterValue_Init v = (Inr None, v\<lparr>iter_cur := Some c\<rparr>) \<and>
         map fst (fst (calls Convert AssignableTo (v\<lparr>iter_cur := Some c\<rparr>) args (Suc (length xs))))
           = replicate (length xs) (Inr True) @ [Inr False] \<and>
         (\<forall>k\<le>length xs. \<exists>c'.
            iter_cur (snd (snd (calls Convert AssignableTo (v\<lparr>iter_cur := Some c\<rparr>) args k)))
              = Some c' \<and>
            yields c' (drop k xs))"
proof -
  let ?v1 = "v\<lparr>iter_cur := Some c\<rparr>"
  have ini: "iterValue_Init v = (Inr None, ?v1)"
    using assms(1,2) by (simp add: iterValue_Init_def)
  have cur: "iter_cur ?v1 = Some c" by simp
  have wt: "list_all (fits Convert AssignableTo (iter_types ?v1) args) xs"
    using assms(4) by simp
  have "fst (calls Convert AssignableTo ?v1 args (Suc (length xs)))
          = spec_run Convert (iter_types ?v1) args xs"
    by (rule calls_all[OF cur assms(3) wt])
  then have res: "map fst (fst (calls Convert AssignableTo ?v1 args (Suc (length xs))))
           = replicate (length xs) (Inr True) @ [Inr False]"
    by (simp only: map_fst_spec_run)
  have consumed: "\<exists>c'. iter_cur (snd (snd (calls Convert AssignableTo ?v1 args k))) = Some c' \<and>
            yields c' (drop k xs)" if "k \<le> length xs" for k
    using calls_prefix[OF cur assms(3) wt that] by auto
  show ?thesis using ini res consumed by blast
qed

theorem iterValue_all_records_then_false_witness:
  "iter_s (newIter [Named ''int''] [rec7, rec8]) = Some (FixedReStream [rec7, rec8]) \<and>
   Open (FixedReStream [rec7, rec8]) = Inr (FixedStream [rec7, rec8]) \<and>
   yields (FixedStream [rec7, rec8]) [rec7, rec8] \<and>
   list_all (fits noConvert identical (iter_types (newIter [Named ''int''] [rec7, rec8])) [intVar 0])
     [rec7, rec8] \<and>
   iterValue_Init (newIter [Named ''int''] [rec7, rec8])
     = (Inr None, (newIter [Named ''int''] [rec7, rec8])\<lparr>iter_cur := Some (FixedStream [rec7, rec8])\<rparr>) \<and>
   map fst (fst (calls noConvert identical
       ((newIter [Named ''int''] [rec7, rec8])\<lparr>iter_cur := Some (FixedStream [rec7, rec8])\<rparr>)
       [intVar 0] (Suc (Suc (Suc 0)))))
     = [Inr True, Inr True, Inr False]"
proof -
  let ?v = "newIter [Named ''int''] [rec7, rec8]"
  have h1: "iter_s ?v = Some (FixedReStream [rec7, rec8])" by (simp add: newIter_def)
  have h2: "Open (FixedReStream [rec7, rec8]) = Inr (FixedStream [rec7, rec8])"
    by (simp add: FixedReStream_def)
  have h3: "yields (FixedStream [rec7, rec8]) [rec7, rec8]"
    by (simp add: FixedStream_def Stream_Read_def)
  have h4: "list_all (fits noConvert identical (iter_types ?v) [intVar 0]) [rec7, rec8]"
    by (simp add: newIter_def fits_def settable_def spec_slot_def sample_defs)
  show ?thesis
    using h1 h2 h3 h4 iterValue_all_records_then_false[OF h1 h2 h3 h4]
    by simp
qed

text \<open>
  C2. A call that reads a record \<open>elm\<close> that fits the out parameters returns \<open>true\<close> and
  fills the slots from left to right as the spec says (\<open>spec_slot\<close>): the variable of a
  slot of type event time receives the timestamp, that of the first other slot the primary
  value converted to the slot's type, that of every later slot the secondary value
  converted to its type; out parameters beyond the declared types are not written. For the
  types \<^verbatim>\<open>[EventTime, K, V]\<close> the variables hold the timestamp, the converted primary
  value and the converted secondary value; for \<^verbatim>\<open>[K]\<close> alone the only variable holds
  the converted primary value, which depends on neither the timestamp nor the secondary
  value.
\<close>

theorem iterValue_invoke_field_mapping:
  assumes "iter_cur v = Some c" and "Stream_Read c = (Inr elm, c')"
    and "fits Convert AssignableTo (iter_types v) args elm"
  shows "\<exists>args'. iterValue_invoke Convert AssignableTo v args
                    = (Inr True, args', v\<lparr>iter_cur := Some c'\<rparr>) \<and>
           length args' = length args \<and>
           (\<forall>i<length (iter_types v).
              args' ! i = store (args ! i) (spec_slot Convert elm (iter_types v) i) \<and>
              pointee (args' ! i) = Some (spec_slot Convert elm (iter_types v) i)) \<and>
           (\<forall>i. length (iter_types v) \<le> i \<and> i < length args \<longrightarrow> args' ! i = args ! i) \<and>
           (\<forall>k val. iter_types v = [EventTimeType, k, val] \<and> k \<noteq> EventTimeType \<and>
                     val \<noteq> EventTimeType \<longrightarrow>
              map pointee (take 3 args')
                = [Some (TimeValue (Timestamp elm)), Some (Convert (Elm elm) k),
                   Some (Convert (Elm2 elm) val)]) \<and>
           (\<forall>k. iter_types v = [k] \<and> k \<noteq> EventTimeType \<longrightarrow>
              map pointee (take 1 args') = [Some (Convert (Elm elm) k)])"
proof -
  let ?ts = "iter_types v"
  let ?args' = "spec_out Convert ?ts args elm"
  have len0: "length ?ts \<le> length args" using assms(3) by (simp add: fits_def)
  have set: "settable AssignableTo (args ! i) (spec_slot Convert elm ?ts i)"
    if "i < length ?ts" for i
    using assms(3) that by (simp add: fits_def list_all_iff)
  have inv: "iterValue_invoke Convert AssignableTo v args
               = (Inr True, ?args', v\<lparr>iter_cur := Some c'\<rparr>)"
    using invoke_record[OF assms] .
  have len: "length ?args' = length args"
    using len0 by (rule length_spec_out)
  have sp: "pointee (?args' ! i) = Some (spec_slot Convert elm ?ts i)"
    if "i < length ?ts" for i
    using pointee_store[OF set[OF that]] that by (simp add: nth_spec_out)
  have slots: "\<forall>i<length ?ts.
      ?args' ! i = store (args ! i) (spec_slot Convert elm ?ts i) \<and>
      pointee (?args' ! i) = Some (spec_slot Convert elm ?ts i)"
    using sp by (simp add: nth_spec_out)
  have rest: "\<forall>i. length ?ts \<le> i \<and> i < length args \<longrightarrow> ?args' ! i = args ! i"
    by (simp add: nth_spec_out_rest)
  have nth_take: "map pointee (take (length ?ts) ?args')
                    = map (\<lambda>i. Some (spec_slot Convert elm ?ts i)) [0..<length ?ts]"
  proof (rule nth_equalityI)
    show "length (map pointee (take (length ?ts) ?args'))
            = length (map (\<lambda>i. Some (spec_slot Convert elm ?ts i)) [0..<length ?ts])"
      using len len0 by simp
  next
    fix i assume "i < length (map pointee (take (length ?ts) ?args'))"
    then have i: "i < length ?ts" using len len0 by simp
    then show "map pointee (take (length ?ts) ?args') ! i
            = map (\<lambda>i. Some (spec_slot Convert elm ?ts i)) [0..<length ?ts] ! i"
      using sp[OF i] len len0 by simp
  qed
  have three: "\<forall>k val. ?ts = [EventTimeType, k, val] \<and> k \<noteq> EventTimeType \<and>
                     val \<noteq> EventTimeType \<longrightarrow>
              map pointee (take 3 ?args')
                = [Some (TimeValue (Timestamp elm)), Some (Convert (Elm elm) k),
                   Some (Convert (Elm2 elm) val)]"
  proof (intro allI impI)
    fix k val
    assume a: "?ts = [EventTimeType, k, val] \<and> k \<noteq> EventTimeType \<and> val \<noteq> EventTimeType"
    then have l3: "length ?ts = 3" by simp
    have "[0..<length ?ts] = [0, Suc 0, Suc (Suc 0)]"
      unfolding l3 by (simp add: numeral_3_eq_3 upt_rec)
    then show "map pointee (take 3 ?args')
                = [Some (TimeValue (Timestamp elm)), Some (Convert (Elm elm) k),
                   Some (Convert (Elm2 elm) val)]"
      using nth_take a unfolding l3 by (simp add: spec_slot_def)
  qed
  have one: "\<forall>k. ?ts = [k] \<and> k \<noteq> EventTimeType \<longrightarrow>
               map pointee (take 1 ?args') = [Some (Convert (Elm elm) k)]"
  proof (intro allI impI)
    fix k
    assume a: "?ts = [k] \<and> k \<noteq> EventTimeType"
    then have l1: "length ?ts = 1" by simp
    show "map pointee (take 1 ?args') = [Some (Convert (Elm elm) k)]"
      using nth_take a unfolding l1 by (simp add: spec_slot_def)
  qed
  show ?thesis
    using inv len slots rest three one by blast
qed

theorem iterValue_invoke_field_mapping_witness:
  "iter_cur (openIter [EventTimeType, Named ''int'', Named ''string''] (FixedStream [rec7]))
     = Some (FixedStream [rec7]) \<and>
   Stream_Read (FixedStream [rec7]) = (Inr rec7, FixedStream []) \<and>
   fits noConvert identical
     (iter_types (openIter [EventTimeType, Named ''int'', Named ''string''] (FixedStream [rec7])))
     [timeVar 0, intVar 0, stringVar ''''] rec7 \<and>
   iterValue_invoke noConvert identical
       (openIter [EventTimeType, Named ''int'', Named ''string''] (FixedStream [rec7]))
       [timeVar 0, intVar 0, stringVar '''']
     = (Inr True, [timeVar 1000, intVar 7, stringVar ''x''],
        openIter [EventTimeType, Named ''int'', Named ''string''] (FixedStream [])) \<and>
   fits noConvert identical (iter_types (openIter [Named ''int''] (FixedStream [rec7])))
     [intVar 0] rec7 \<and>
   iterValue_invoke noConvert identical (openIter [Named ''int''] (FixedStream [rec7])) [intVar 0]
     = (Inr True, [intVar 7], openIter [Named ''int''] (FixedStream []))"
proof -
  let ?c = "FixedStream [rec7]"
  let ?v = "openIter [EventTimeType, Named ''int'', Named ''string''] ?c"
  let ?w = "openIter [Named ''int''] ?c"
  have rd: "Stream_Read ?c = (Inr rec7, FixedStream [])"
    by (simp add: Stream_Read_def FixedStream_def)
  have v1: "iter_cur ?v = Some ?c" by (simp add: openIter_def)
  have v3: "fits noConvert identical (iter_types ?v) [timeVar 0, intVar 0, stringVar ''''] rec7"
    by (simp add: openIter_def fits_def settable_def spec_slot_def sample_defs upt_rec)
  have w1: "iter_cur ?w = Some ?c" by (simp add: openIter_def)
  have w3: "fits noConvert identical (iter_types ?w) [intVar 0] rec7"
    by (simp add: openIter_def fits_def settable_def spec_slot_def sample_defs)
  have tv: "iter_types ?v = [EventTimeType, Named ''int'', Named ''string'']"
    by (simp add: openIter_def)
  have tw: "iter_types ?w = [Named ''int'']" by (simp add: openIter_def)
  obtain a where a: "iterValue_invoke noConvert identical ?v [timeVar 0, intVar 0, stringVar '''']
        = (Inr True, a, ?v\<lparr>iter_cur := Some (FixedStream [])\<rparr>)"
      and la: "length a = 3"
      and sa: "\<forall>i<3. a ! i = store ([timeVar 0, intVar 0, stringVar ''''] ! i)
                 (spec_slot noConvert rec7 [EventTimeType, Named ''int'', Named ''string''] i)"
    using iterValue_invoke_field_mapping[OF v1 rd v3] tv by auto
  obtain b where b: "iterValue_invoke noConvert identical ?w [intVar 0]
        = (Inr True, b, ?w\<lparr>iter_cur := Some (FixedStream [])\<rparr>)"
      and lb: "length b = 1"
      and sb: "\<forall>i<1. b ! i = store ([intVar 0] ! i) (spec_slot noConvert rec7 [Named ''int''] i)"
    using iterValue_invoke_field_mapping[OF w1 rd w3] tw by auto
  have a0: "a ! 0 = timeVar 1000" and a1: "a ! 1 = intVar 7" and a2: "a ! 2 = stringVar ''x''"
    using sa by (simp_all add: spec_slot_def sample_defs)
  have aeq: "a = [timeVar 1000, intVar 7, stringVar ''x'']"
    using la a0 a1 a2 by (intro nth_equalityI) (auto simp: less_Suc_eq numeral_3_eq_3 numeral_2_eq_2)
  have b0: "b ! 0 = intVar 7" using sb by (simp add: spec_slot_def sample_defs)
  have beq: "b = [intVar 7]"
    using lb b0 by (intro nth_equalityI) auto
  show ?thesis
    using a b aeq beq rd v1 v3 w3
    by (simp add: openIter_def)
qed

text \<open>
  C3. When the cursor's read fails with an error other than end-of-stream, the callable
  panics with that error wrapped in \<^verbatim>\<open>"broken stream"\<close>; it does not return \<open>false\<close>.
  The out parameters are not written, and the iterator keeps its cursor.
\<close>

theorem iterValue_invoke_broken_stream:
  assumes "iter_cur v = Some c" and "Stream_Read c = (Inl e, c')" and "e \<noteq> EOF"
  shows "iterValue_invoke Convert AssignableTo v args =
           (Inl (PanicError (Wrap e ''broken stream'')), args, v\<lparr>iter_cur := Some c'\<rparr>) \<and>
         fst (iterValue_invoke Convert AssignableTo v args) \<noteq> Inr False"
  using assms by (simp add: iterValue_invoke_def)

theorem iterValue_invoke_broken_stream_witness:
  "iter_cur (openIter [Named ''int''] (failingStream (Err ''connection reset'')))
     = Some (failingStream (Err ''connection reset'')) \<and>
   Stream_Read (failingStream (Err ''connection reset'') :: (int + string, unit) Stream)
     = (Inl (Err ''connection reset''), failingStream (Err ''connection reset'')) \<and>
   Err ''connection reset'' \<noteq> EOF \<and>
   iterValue_invoke noConvert identical
      (openIter [Named ''int''] (failingStream (Err ''connection reset''))) [intVar 0]
     = (Inl (PanicError (Wrap (Err ''connection reset'') ''broken stream'')), [intVar 0],
        openIter [Named ''int''] (failingStream (Err ''connection reset'')))"
proof -
  let ?c = "failingStream (Err ''connection reset'') :: (int + string, unit) Stream"
  have h1: "iter_cur (openIter [Named ''int''] ?c) = Some ?c" by (simp add: openIter_def)
  have h2: "Stream_Read ?c = (Inl (Err ''connection reset''), ?c)"
    by (simp add: Stream_Read_def failingStream_def)
  have h3: "Err ''connection reset'' \<noteq> EOF" by simp
  show ?thesis
    using iterValue_invoke_broken_stream[OF h1 h2 h3, of noConvert identical "[intVar 0]"] h1 h2
    by (simp add: openIter_def)
qed

text \<open>
  C8. When the cursor's read answers end-of-stream, the callable returns \<open>false\<close> and
  every out parameter holds what it held before the call.
\<close>

theorem iterValue_invoke_end_of_stream:
  assumes "iter_cur v = Some c" and "Stream_Read c = (Inl EOF, c')"
  shows "iterValue_invoke Convert AssignableTo v args
           = (Inr False, args, v\<lparr>iter_cur := Some c'\<rparr>)"
  using assms by (simp add: iterValue_invoke_def)

theorem iterValue_invoke_end_of_stream_witness:
  "iter_cur (openIter [Named ''int'', Named ''string''] (FixedStream [])) = Some (FixedStream []) \<and>
   Stream_Read (FixedStream [] :: (int + string, (int + string) FullValue list) Stream)
     = (Inl EOF, FixedStream []) \<and>
   iterValue_invoke noConvert identical (openIter [Named ''int'', Named ''string''] (FixedStream []))
      [intVar 5, stringVar ''old'']
     = (Inr False, [intVar 5, stringVar ''old''],
        openIter [Named ''int'', Named ''string''] (FixedStream []))"
proof -
  let ?c = "FixedStream [] :: (int + string, (int + string) FullValue list) Stream"
  have h1: "iter_cur (openIter [Named ''int'', Named ''string''] ?c) = Some ?c"
    by (simp add: openIter_def)
  have h2: "Stream_Read ?c = (Inl EOF, ?c)"
    by (simp add: Stream_Read_def FixedStream_def)
  show ?thesis
    using iterValue_invoke_end_of_stream[OF h1 h2, of noConvert identical
        "[intVar 5, stringVar ''old'']"] h1 h2
    by (simp add: openIter_def)
qed

text \<open>
  C10. With an open cursor, \<^verbatim>\<open>Reset\<close> returns the error of \<^verbatim>\<open>Close\<close> when there is one,
  and the \<^verbatim>\<open>cur\<close> field is then not cleared: it still holds the cursor (as \<^verbatim>\<open>Close\<close> left
  it), so the iterator stays initialized. Only a successful close clears the field.
\<close>

theorem iterValue_Reset_close_error:
  assumes "iter_cur v = Some c"
  shows "(\<forall>err c'. Stream_Close c = (Some err, c') \<longrightarrow>
            iterValue_Reset v = (Inr (Some err), v\<lparr>iter_cur := Some c'\<rparr>) \<and>
            iter_cur (snd (iterValue_Reset v)) \<noteq> None) \<and>
         (\<forall>c'. Stream_Close c = (None, c') \<longrightarrow>
            iterValue_Reset v = (Inr None, v\<lparr>iter_cur := None\<rparr>))"
  using assms by (simp add: iterValue_Reset_def)

theorem iterValue_Reset_close_error_witness:
  "iter_cur (openIter [Named ''int''] (failingStream (Err ''close failed'')))
     = Some (failingStream (Err ''close failed'')) \<and>
   Stream_Close (failingStream (Err ''close failed'') :: (int + string, unit) Stream)
     = (Some (Err ''close failed''), failingStream (Err ''close failed'')) \<and>
   iterValue_Reset (openIter [Named ''int''] (failingStream (Err ''close failed'')))
     = (Inr (Some (Err ''close failed'')),
        openIter [Named ''int''] (failingStream (Err ''close failed''))) \<and>
   Stream_Close (FixedStream [rec7]) = (None, FixedStream [rec7]) \<and>
   iterValue_Reset (openIter [Named ''int''] (FixedStream [rec7]))
     = (Inr None, (openIter [Named ''int''] (FixedStream [rec7]))\<lparr>iter_cur := None\<rparr>)"
proof -
  let ?c = "failingStream (Err ''close failed'') :: (int + string, unit) Stream"
  let ?d = "FixedStream [rec7]"
  have h1: "iter_cur (openIter [Named ''int''] ?c) = Some ?c" by (simp add: openIter_def)
  have h2: "Stream_Close ?c = (Some (Err ''close failed''), ?c)"
    by (simp add: Stream_Close_def failingStream_def)
  have g1: "iter_cur (openIter [Named ''int''] ?d) = Some ?d" by (simp add: openIter_def)
  have g2: "Stream_Close ?d = (None, ?d)"
    by (simp add: Stream_Close_def FixedStream_def)
  show ?thesis
    using iterValue_Reset_close_error[OF h1] iterValue_Reset_close_error[OF g1] h1 h2 g2
    by (simp add: openIter_def)
qed

text \<open>
  C4, as stated, asks that \<^verbatim>\<open>Value\<close> before \<^verbatim>\<open>Init\<close> raises the misuse error. It does
  not: on an iterator that \<^verbatim>\<open>makeIter\<close> has just built, with no cursor, \<^verbatim>\<open>Value\<close> returns
  the callable.
\<close>

theorem iterValue_Value_before_Init_counterexample:
  "iter_cur (newIter [Named ''int''] [rec7]) = None \<and>
   \<not> isl (iterValue_Value (newIter [Named ''int''] [rec7])) \<and>
   iterValue_Value (newIter [Named ''int''] [rec7]) = Inr (MakeFunc iterT IterInvoke)"
  by (simp add: newIter_def iterValue_Value_def)

text \<open>
  C4, amended. On an iterator with no open cursor, \<^verbatim>\<open>Reset\<close> and the callable that
  \<^verbatim>\<open>Value\<close> hands out both panic with \<^verbatim>\<open>"Init() not called"\<close> and change nothing;
  \<^verbatim>\<open>Value\<close> itself checks nothing and returns the callable.
\<close>

theorem iterValue_misuse_before_Init:
  assumes "iter_cur v = None"
  shows "iterValue_Reset v = (Inl (PanicString ''Init() not called''), v) \<and>
         iterValue_invoke Convert AssignableTo v args
           = (Inl (PanicString ''Init() not called''), args, v) \<and>
         iterValue_Value v = Inr (iter_fn v)"
  using assms by (simp add: iterValue_Reset_def iterValue_invoke_def iterValue_Value_def)

theorem iterValue_misuse_before_Init_witness:
  "iter_cur (newIter [Named ''int''] [rec7]) = None \<and>
   iterValue_Reset (newIter [Named ''int''] [rec7])
     = (Inl (PanicString ''Init() not called''), newIter [Named ''int''] [rec7]) \<and>
   iterValue_invoke noConvert identical (newIter [Named ''int''] [rec7]) [intVar 0]
     = (Inl (PanicString ''Init() not called''), [intVar 0], newIter [Named ''int''] [rec7])"
proof -
  have h: "iter_cur (newIter [Named ''int''] [rec7]) = None" by (simp add: newIter_def)
  show ?thesis
    using h iterValue_misuse_before_Init[OF h, of noConvert identical "[intVar 0]"] by simp
qed

subsection \<open>The re-iterable factory\<close>

text \<open>
  C6, as stated, has every invocation of the factory's callable build a sequential
  iterator over the factory's stream. It does not when a specialised maker is registered
  for the iterator type: \<^verbatim>\<open>makeIter\<close> then returns what the maker builds. With a maker
  that builds the fixed value 1, the factory over the three records hands out 1.
\<close>

theorem reIterValue_invoke_registered_counterexample:
  "reiter_s sampleReIter = Some (FixedReStream [rec7, rec8, rec9]) \<and>
   Open (FixedReStream [rec7, rec8, rec9]) = Inr (FixedStream [rec7, rec8, rec9]) \<and>
   yields (FixedStream [rec7, rec8, rec9]) [rec7, rec8, rec9] \<and>
   reIterValue_invoke fixedInputs sampleUnfoldIter sampleReIter []
     = Inr (intData 1, fixedInput (intData 1))"
  by (simp add: sampleReIter_def reIterT_def FixedReStream_def FixedStream_def Stream_Read_def
        reIterValue_invoke_def Out_def freshIter_def makeIter_def fixedInputs_def
        RegisterInput_def fixedMaker_def fixedInput_def)

text \<open>
  C6, amended. Let the factory's stream be restartable and open to a cursor that contains
  the records \<open>xs\<close>, and let \<open>t\<close> be the iterator type that the factory's type returns.
  Every invocation of the factory's callable hands the same stream to \<^verbatim>\<open>makeIter\<close> for
  \<open>t\<close>, initializes the result and returns its value: with a specialised maker registered
  for \<open>t\<close>, that of the maker's product; with none, the callable of a new reflection-based
  iterator, initialized with a fresh cursor. Two such iterators are independent: for
  records that fit the out parameters, when the first has made \<open>k\<close> calls (and observed
  the first \<open>k\<close> records), a second one handed out then still observes all of \<open>xs\<close> in
  order and then \<open>false\<close>, and the first, resumed, observes the remaining records in order
  and then \<open>false\<close>.
\<close>

theorem reIterValue_invoke_independent_passes:
  assumes "reiter_t v = Func ins (t # outs)" and "reiter_s v = Some rs"
    and "Open rs = Inr c" and "yields c xs"
  shows "(\<forall>maker. inputs t = Some maker \<longrightarrow>
            reIterValue_invoke inputs UnfoldIter v a = initAndValue (maker (Some rs))) \<and>
         (inputs t = None \<and> t = Func tin tout \<and> UnfoldIter t = Some types \<and>
          list_all (fits Convert AssignableTo types args1) xs \<and>
          list_all (fits Convert AssignableTo types args2) xs \<and> k \<le> length xs \<longrightarrow>
            reIterValue_invoke inputs UnfoldIter v a
              = Inr (MakeFunc t IterInvoke, IterValue (initializedIter t types rs c)) \<and>
            fst (calls Convert AssignableTo (initializedIter t types rs c) args1 k)
              = take k (spec_run Convert types args1 xs) \<and>
            fst (calls Convert AssignableTo (initializedIter t types rs c) args2 (Suc (length xs)))
              = spec_run Convert types args2 xs \<and>
            (case calls Convert AssignableTo (initializedIter t types rs c) args1 k of
               (obs, args1', it1) \<Rightarrow>
                 fst (calls Convert AssignableTo it1 args1' (Suc (length xs - k)))
                   = spec_run Convert types args1' (drop k xs)))"
proof (intro conjI allI impI)
  fix maker assume "inputs t = Some maker"
  then show "reIterValue_invoke inputs UnfoldIter v a = initAndValue (maker (Some rs))"
    using assms(1,2) by (simp add: reIterValue_invoke_def Out_Func_0 freshIter_registered)
next
  assume h: "inputs t = None \<and> t = Func tin tout \<and> UnfoldIter t = Some types \<and>
          list_all (fits Convert AssignableTo types args1) xs \<and>
          list_all (fits Convert AssignableTo types args2) xs \<and> k \<le> length xs"
  let ?it = "initializedIter t types rs c"
  have cur: "iter_cur ?it = Some c" by simp
  have w1: "list_all (fits Convert AssignableTo (iter_types ?it) args1) xs" using h by simp
  have w2: "list_all (fits Convert AssignableTo (iter_types ?it) args2) xs" using h by simp
  have k: "k \<le> length xs" using h by simp
  have fr: "freshIter inputs UnfoldIter (Func tin tout) (Some rs) =
           Inr (MakeFunc (Func tin tout) IterInvoke,
                IterValue (initializedIter (Func tin tout) types rs c))"
  proof (rule freshIter_reflective[where inputs = inputs and UnfoldIter = UnfoldIter])
    show "inputs (Func tin tout) = None" using h by auto
    show "UnfoldIter (Func tin tout) = Some types" using h by auto
    show "Open rs = Inr c" by (rule assms(3))
  qed
  show made: "reIterValue_invoke inputs UnfoldIter v a
                = Inr (MakeFunc t IterInvoke, IterValue ?it)"
    using assms(1,2) fr h by (simp add: reIterValue_invoke_def Out_Func_0)
  obtain c' where
    pre: "calls Convert AssignableTo ?it args1 k =
           (map (\<lambda>x. (Inr True, spec_out Convert types args1 x)) (take k xs),
            last (args1 # map (spec_out Convert types args1) (take k xs)),
            ?it\<lparr>iter_cur := Some c'\<rparr>)"
    and y': "yields c' (drop k xs)"
    using calls_prefix[OF cur assms(4) w1 k] by auto
  show "fst (calls Convert AssignableTo ?it args1 k) = take k (spec_run Convert types args1 xs)"
    using pre k by (simp add: take_spec_run)
  show "fst (calls Convert AssignableTo ?it args2 (Suc (length xs)))
          = spec_run Convert types args2 xs"
    using calls_all[OF cur assms(4) w2] by simp
  let ?a = "last (args1 # map (spec_out Convert types args1) (take k xs))"
  let ?it1 = "?it\<lparr>iter_cur := Some c'\<rparr>"
  have cur1: "iter_cur ?it1 = Some c'" by simp
  have w3: "list_all (fits Convert AssignableTo (iter_types ?it1) ?a) (drop k xs)"
    using list_all_fits_last[OF list_all_drop[OF w1, of k], of "take k xs"]
    by (simp del: last.simps)
  have "fst (calls Convert AssignableTo ?it1 ?a (Suc (length (drop k xs))))
          = spec_run Convert (iter_types ?it1) ?a (drop k xs)"
    by (rule calls_all[OF cur1 y' w3])
  then show "case calls Convert AssignableTo ?it args1 k of
               (obs, args1', it1) \<Rightarrow>
                 fst (calls Convert AssignableTo it1 args1' (Suc (length xs - k)))
                   = spec_run Convert types args1' (drop k xs)"
    by (simp add: pre)
qed


theorem reIterValue_invoke_independent_passes_witness:
  "reiter_t sampleReIter = Func [] [iterT] \<and>
   reiter_s sampleReIter = Some (FixedReStream [rec7, rec8, rec9]) \<and>
   Open (FixedReStream [rec7, rec8, rec9]) = Inr (FixedStream [rec7, rec8, rec9]) \<and>
   yields (FixedStream [rec7, rec8, rec9]) [rec7, rec8, rec9] \<and>
   fixedInputs iterT = Some (fixedMaker (intData 1)) \<and>
   reIterValue_invoke fixedInputs sampleUnfoldIter sampleReIter []
     = initAndValue (fixedMaker (intData 1) (Some (FixedReStream [rec7, rec8, rec9]))) \<and>
   noInputs iterT = None \<and>
   iterT = Func [Ptr (Named ''int'')] [Named ''bool''] \<and>
   sampleUnfoldIter iterT = Some [Named ''int''] \<and>
   list_all (fits noConvert identical [Named ''int''] [intVar 0]) [rec7, rec8, rec9] \<and>
   Suc 0 \<le> length [rec7, rec8, rec9] \<and>
   reIterValue_invoke noInputs sampleUnfoldIter sampleReIter []
     = Inr (MakeFunc iterT IterInvoke, IterValue sampleIter) \<and>
   calls noConvert identical sampleIter [intVar 0] (Suc 0)
     = ([(Inr True, [intVar 7])], [intVar 7],
        sampleIter\<lparr>iter_cur := Some (FixedStream [rec8, rec9])\<rparr>) \<and>
   fst (calls noConvert identical sampleIter [intVar 0] (Suc (Suc (Suc (Suc 0)))))
     = [(Inr True, [intVar 7]), (Inr True, [intVar 8]), (Inr True, [intVar 9]),
        (Inr False, [intVar 9])] \<and>
   fst (calls noConvert identical (sampleIter\<lparr>iter_cur := Some (FixedStream [rec8, rec9])\<rparr>)
          [intVar 7] (Suc (Suc (Suc 0))))
     = [(Inr True, [intVar 8]), (Inr True, [intVar 9]), (Inr False, [intVar 9])]"
proof -
  have h1: "reiter_t sampleReIter = Func [] [iterT]"
    by (simp add: sampleReIter_def reIterT_def)
  have h2: "reiter_s sampleReIter = Some (FixedReStream [rec7, rec8, rec9])"
    by (simp add: sampleReIter_def)
  have h3: "Open (FixedReStream [rec7, rec8, rec9]) = Inr (FixedStream [rec7, rec8, rec9])"
    by (simp add: FixedReStream_def)
  have h4: "yields (FixedStream [rec7, rec8, rec9]) [rec7, rec8, rec9]"
    by (simp add: FixedStream_def Stream_Read_def)
  have r5: "fixedInputs iterT = Some (fixedMaker (intData 1))"
    by (simp add: fixedInputs_def RegisterInput_def)
  have h5: "noInputs iterT = None" by (simp add: noInputs_def)
  have h5': "iterT = Func [Ptr (Named ''int'')] [Named ''bool'']" by (simp add: iterT_def)
  have h6: "sampleUnfoldIter iterT = Some [Named ''int'']" by (simp add: sampleUnfoldIter_def)
  have h7: "list_all (fits noConvert identical [Named ''int''] [intVar 0]) [rec7, rec8, rec9]"
    by (simp add: fits_def settable_def spec_slot_def sample_defs)
  have h9: "Suc 0 \<le> length [rec7, rec8, rec9]" by simp
  note reg = reIterValue_invoke_independent_passes[where inputs = fixedInputs
        and UnfoldIter = sampleUnfoldIter and a = "[]", OF h1 h2 h3 h4, THEN conjunct1,
        rule_format, OF r5]
  note unreg = reIterValue_invoke_independent_passes[where inputs = noInputs
        and UnfoldIter = sampleUnfoldIter and Convert = noConvert and AssignableTo = identical
        and a = "[]" and tin = "[Ptr (Named ''int'')]" and tout = "[Named ''bool'']"
        and types = "[Named ''int'']" and ?args1.0 = "[intVar 0]" and ?args2.0 = "[intVar 0]"
        and k = "Suc 0",
        OF h1 h2 h3 h4, THEN conjunct2, rule_format, OF conjI[OF h5 conjI[OF h5' conjI[OF h6
          conjI[OF h7 conjI[OF h7 h9]]]]]]
  have made: "reIterValue_invoke noInputs sampleUnfoldIter sampleReIter []
     = Inr (MakeFunc iterT IterInvoke, IterValue sampleIter)"
    using unreg by (simp add: sampleIter_def)
  have c1: "calls noConvert identical sampleIter [intVar 0] (Suc 0)
     = ([(Inr True, [intVar 7])], [intVar 7],
        sampleIter\<lparr>iter_cur := Some (FixedStream [rec8, rec9])\<rparr>)"
    by (simp add: sample_defs)
  have c4: "fst (calls noConvert identical sampleIter [intVar 0] (Suc (Suc (Suc (Suc 0)))))
     = [(Inr True, [intVar 7]), (Inr True, [intVar 8]), (Inr True, [intVar 9]),
        (Inr False, [intVar 9])]"
    by (simp add: sample_defs)
  have c3: "fst (calls noConvert identical (sampleIter\<lparr>iter_cur := Some (FixedStream [rec8, rec9])\<rparr>)
          [intVar 7] (Suc (Suc (Suc 0))))
     = [(Inr True, [intVar 8]), (Inr True, [intVar 9]), (Inr False, [intVar 9])]"
    by (simp add: sample_defs)
  show ?thesis
    using h1 h2 h3 h4 r5 reg h5 h5' h6 h7 h9 made c1 c4 c3 by simp
qed

subsection \<open>The keyed multimap accessor\<close>




text \<open>
  C9. The error that the adapter returns is dropped: replacing it by any other value
  leaves the result of the callable unchanged, and with one argument the result is that of
  building and initializing an iterator over whatever stream value came with it.
\<close>

theorem multiMapValue_invoke_discards_adapter_error:
  "multiMapValue_invoke Convert inputs UnfoldIter
       (v\<lparr>mm_adapter := \<lambda>ctx reader w key. (fst (mm_adapter v ctx reader w key), err ctx reader w key)\<rparr>)
       args
     = multiMapValue_invoke Convert inputs UnfoldIter v args \<and>
   multiMapValue_invoke Convert inputs UnfoldIter v [key]
     = (case Out (mm_t v) 0 of
          Inl p \<Rightarrow> Inl p
        | Inr t \<Rightarrow>
            freshIter inputs UnfoldIter t
              (fst (mm_adapter v (mm_ctx v) (mm_reader v) (mm_w v)
                      (ValueOf (Convert (Reflected key) (mm_keyType v))))))"
  by (simp add: multiMapValue_invoke_def split_beta split: sum.split)

theorem multiMapValue_invoke_discards_adapter_error_witness:
  "multiMapValue_invoke noConvert noInputs sampleUnfoldIter
       (sampleMultiMap\<lparr>mm_adapter :=
          \<lambda>ctx reader w key. (Some (FixedReStream [rec7]), Some (Err ''state read failed''))\<rparr>)
       [ValueOf (stringData ''a'')]
     = Inr (MakeFunc iterT IterInvoke,
            IterValue (initializedIter iterT [Named ''int''] (FixedReStream [rec7]) (FixedStream [rec7]))) \<and>
   multiMapValue_invoke noConvert noInputs sampleUnfoldIter
       (sampleMultiMap\<lparr>mm_adapter := \<lambda>ctx reader w key. (None, Some (Err ''state read failed''))\<rparr>)
       [ValueOf (stringData ''a'')]
     = Inl (RuntimeError ''invalid memory address or nil pointer dereference'')"
proof -
  let ?A = "\<lambda>(ctx :: unit) (reader :: unit) (w :: nat) (key :: (int + string) reflectValue).
              (Some (FixedReStream [rec7]), Some (Err ''state read failed''))"
  let ?B = "\<lambda>(ctx :: unit) (reader :: unit) (w :: nat) (key :: (int + string) reflectValue).
              (None :: (int + string, (int + string) FullValue list) ReStream option,
               Some (Err ''state read failed''))"
  have o: "(Out (mm_t sampleMultiMap) 0 :: (int + string) panic + rtype) = Inr iterT"
    by (simp add: sampleMultiMap_def multiMapT_def Out_def)
  have f: "freshIter noInputs sampleUnfoldIter iterT (Some (FixedReStream [rec7]))
           = Inr (MakeFunc iterT IterInvoke,
                  IterValue (initializedIter iterT [Named ''int''] (FixedReStream [rec7]) (FixedStream [rec7])))"
    by (simp add: freshIter_def makeIter_def reflect_MakeFunc_def iterValue_Init_def
          iterValue_Value_def initializedIter_def sampleUnfoldIter_def FixedReStream_def
          noInputs_def iterT_def)
  have g: "freshIter noInputs sampleUnfoldIter iterT None
           = Inl (RuntimeError ''invalid memory address or nil pointer dereference'')"
    by (simp add: freshIter_def makeIter_def reflect_MakeFunc_def sampleUnfoldIter_def
          iterValue_Init_def noInputs_def iterT_def)
  show ?thesis
    using multiMapValue_invoke_discards_adapter_error[of noConvert noInputs sampleUnfoldIter
            "sampleMultiMap\<lparr>mm_adapter := ?A\<rparr>" "\<lambda>ctx reader w key. None" "[]"
            "ValueOf (stringData ''a'')"]
          multiMapValue_invoke_discards_adapter_error[of noConvert noInputs sampleUnfoldIter
            "sampleMultiMap\<lparr>mm_adapter := ?B\<rparr>" "\<lambda>ctx reader w key. None" "[]"
            "ValueOf (stringData ''a'')"]
          o f g
    by simp
qed

subsection \<open>The registry\<close>

text \<open>
  C7. After a maker \<open>A\<close> and then a maker \<open>B\<close> are registered for a type \<open>t\<close>, every
  later lookup of \<open>t\<close> finds \<open>B\<close>, whatever is registered afterwards for other types:
  the map holds \<open>B\<close>, \<^verbatim>\<open>IsInputRegistered\<close> answers true, and \<^verbatim>\<open>makeIter\<close> returns what
  \<open>B\<close> builds.
\<close>

theorem RegisterInput_last_wins:
  assumes "t \<notin> fst ` set later"
  shows "RegisterAll later (RegisterInput t B (RegisterInput t A inputs)) t = Some B \<and>
         IsInputRegistered (RegisterAll later (RegisterInput t B (RegisterInput t A inputs))) t \<and>
         makeIter (RegisterAll later (RegisterInput t B (RegisterInput t A inputs))) UnfoldIter t s
           = Inr (B s)"
proof -
  have "RegisterAll later (RegisterInput t B (RegisterInput t A inputs)) t = Some B"
    using RegisterAll_other[OF assms] by (simp add: RegisterInput_def)
  then show ?thesis by (simp add: IsInputRegistered_def makeIter_def)
qed

theorem RegisterInput_last_wins_witness:
  "iterT \<notin> fst ` set [(reIterT, \<lambda>s. fixedInput NilValue)] \<and>
   RegisterAll [(reIterT, \<lambda>s. fixedInput NilValue)]
     (RegisterInput iterT (\<lambda>s. fixedInput (intData 2))
        (RegisterInput iterT (\<lambda>s. fixedInput (intData 1)) Map.empty)) iterT
     = Some (\<lambda>s. fixedInput (intData 2)) \<and>
   makeIter
     (RegisterAll [(reIterT, \<lambda>s. fixedInput NilValue)]
        (RegisterInput iterT (\<lambda>s. fixedInput (intData 2))
           (RegisterInput iterT (\<lambda>s. fixedInput (intData 1)) Map.empty)))
     sampleUnfoldIter iterT None
     = Inr (fixedInput (intData 2))"
proof -
  have h: "iterT \<notin> fst ` set [(reIterT, \<lambda>s. fixedInput NilValue)]"
    by (simp add: iterT_def reIterT_def)
  show ?thesis
    using h RegisterInput_last_wins[OF h, of "\<lambda>s. fixedInput (intData 2)"
        "\<lambda>s. fixedInput (intData 1)" Map.empty sampleUnfoldIter None]
    by simp
qed

end
